theory Spec2Isabelle
  imports Complex_Main "HOL-Library.AList"
begin

section \<open>JavaScript values and the tape test object\<close>

text \<open>
  Values as \<^verbatim>\<open>JSON.parse\<close> produces them, plus \<^verbatim>\<open>undefined\<close>. A number is a finite
  double, read as the real number it denotes: the sources only compare numbers, they never
  compute with them. An object is the list of its own properties.
\<close>

datatype jsval =
    JUndefined
  | JNull
  | JBool bool
  | JNum real
  | JStr string
  | JArr "jsval list"
  | JObj "(string \<times> jsval) list"

text \<open>
  The result of a conversion to a number: a number, NaN, or the TypeError of a value that
  has no primitive value (an object whose own \<^verbatim>\<open>toString\<close> is not a function).
\<close>

datatype conversion = Number real | NaN | Throws

text \<open>
  The library operations the sources call and whose code is not part of the repository:
  \<^verbatim>\<open>JSON.parse\<close> (\<open>None\<close> when it throws a SyntaxError), the string conversion of a
  template literal and the number conversion of a comparison.
\<close>

record ecma =
  JSON_parse :: "string \<Rightarrow> jsval option"
  ToString :: "jsval \<Rightarrow> string"
  ToNumber :: "jsval \<Rightarrow> conversion"

fun truthy :: "jsval \<Rightarrow> bool" where
  "truthy JUndefined = False"
| "truthy JNull = False"
| "truthy (JBool b) = b"
| "truthy (JNum n) = (n \<noteq> 0)"
| "truthy (JStr s) = (s \<noteq> [])"
| "truthy (JArr xs) = True"
| "truthy (JObj kvs) = True"

text \<open>\<^verbatim>\<open>`${v}`\<close>: a string is spliced as it is, any other value is converted.\<close>

definition template :: "ecma \<Rightarrow> jsval \<Rightarrow> string" where
  "template E v = (case v of JStr s \<Rightarrow> s | _ \<Rightarrow> ToString E v)"

text \<open>
  \<^verbatim>\<open>v > 0\<close>: the left side is converted to a number; a NaN makes the comparison false,
  and the TypeError of the conversion (\<open>None\<close>) is the outcome of the comparison.
\<close>

definition gt_zero :: "ecma \<Rightarrow> jsval \<Rightarrow> bool option" where
  "gt_zero E v =
     (case (case v of JNum n \<Rightarrow> Number n | _ \<Rightarrow> ToNumber E v) of
        Number n \<Rightarrow> Some (n > 0)
      | NaN \<Rightarrow> Some False
      | Throws \<Rightarrow> None)"

text \<open>\<^verbatim>\<open>v === n\<close> for a number literal \<open>n\<close>.\<close>

definition strict_equal_num :: "jsval \<Rightarrow> real \<Rightarrow> bool" where
  "strict_equal_num v n = (case v of JNum m \<Rightarrow> m = n | _ \<Rightarrow> False)"

text \<open>
  Property access \<^verbatim>\<open>v.k\<close> for a data property \<open>k\<close>: a TypeError (\<open>None\<close>) on
  \<^verbatim>\<open>null\<close> and \<^verbatim>\<open>undefined\<close>, \<^verbatim>\<open>undefined\<close> where the property is missing.
\<close>

definition get_prop :: "jsval \<Rightarrow> string \<Rightarrow> jsval option" where
  "get_prop v k =
     (case v of
        JUndefined \<Rightarrow> None
      | JNull \<Rightarrow> None
      | JObj kvs \<Rightarrow> Some (case map_of kvs k of Some x \<Rightarrow> x | None \<Rightarrow> JUndefined)
      | _ \<Rightarrow> Some JUndefined)"

text \<open>
  \<^verbatim>\<open>v.hasOwnProperty(k)\<close> for a name \<open>k\<close> that is neither \<^verbatim>\<open>length\<close> nor an index.
  It is a TypeError (\<open>None\<close>) on \<^verbatim>\<open>null\<close> and \<^verbatim>\<open>undefined\<close>, and on an object with an
  own property named \<^verbatim>\<open>hasOwnProperty\<close>: that property hides the method of
  \<^verbatim>\<open>Object.prototype\<close>, and no value of \<open>jsval\<close> is a function.
\<close>

definition hasOwnProperty :: "jsval \<Rightarrow> string \<Rightarrow> bool option" where
  "hasOwnProperty v k =
     (case v of
        JUndefined \<Rightarrow> None
      | JNull \<Rightarrow> None
      | JObj kvs \<Rightarrow>
          (if ''hasOwnProperty'' \<in> fst ` set kvs then None else Some (k \<in> fst ` set kvs))
      | _ \<Rightarrow> Some False)"

text \<open>
  The tape object \<open>t\<close> is the list of what was reported to it: \<^verbatim>\<open>t.equal\<close>, \<^verbatim>\<open>t.ok\<close>,
  \<^verbatim>\<open>t.fail\<close> report an assertion with its outcome and message, \<^verbatim>\<open>t.comment\<close> a comment.
\<close>

datatype tap = Assertion bool string | Comment string

section \<open>adminApiReq\<close>

text \<open>What the admin endpoint does with a request: a response, or a transport error.\<close>

datatype outcome =
    Response int "string option" "string list"
  | TransportError string

text \<open>
  What the callbacks of a request end with: \<^verbatim>\<open>onError()\<close>, \<^verbatim>\<open>cb(v)\<close>, or the exception
  of \<^verbatim>\<open>JSON.parse\<close>, which nothing catches.
\<close>

datatype invoke = OnError | Cb jsval | Uncaught

text \<open>\<^verbatim>\<open>/^application\/json/.test(contentType)\<close>; a missing header is the text "undefined".\<close>

definition is_json :: "string option \<Rightarrow> bool" where
  "is_json contentType =
     (case contentType of
        None \<Rightarrow> False
      | Some s \<Rightarrow> take 16 s = ''application/json'')"

definition problem_message :: "string \<Rightarrow> string \<Rightarrow> string \<Rightarrow> string" where
  "problem_message method path msg =
     ''problem with admin API '' @ [CHR 0x27] @ method @ [CHR 0x27] @
     '' request to path '' @ [CHR 0x27] @ path @ [CHR 0x27] @ '': '' @ msg"

text \<open>
  The response callback of \<^verbatim>\<open>adminApiReq\<close> (lines 43 to 58, with the \<^verbatim>\<open>'data'\<close> and
  \<^verbatim>\<open>'end'\<close> listeners run on the chunks of the body) and its \<^verbatim>\<open>'error'\<close> listener
  (lines 59 to 62): the reports to \<open>t\<close> and the continuation invoked last.
\<close>

definition adminApiReq_reply ::
  "ecma \<Rightarrow> string \<Rightarrow> string \<Rightarrow> int \<Rightarrow> outcome \<Rightarrow> tap list \<times> invoke" where
  "adminApiReq_reply E method path response out =
     (case out of
        Response statusCode contentType chunks \<Rightarrow>
          (let t1 = [Assertion (statusCode = response) ''status code is Success'']
           in if \<not> (200 = statusCode \<or> 204 = statusCode) then (t1, OnError)
              else
                (let t2 = t1 @ (if 200 = statusCode
                                then [Assertion (is_json contentType)
                                        ''content type is application/json'']
                                else []);
                     rawData = concat chunks
                 in if 204 = statusCode then (t2, Cb JNull)
                    else (case JSON_parse E rawData of
                            Some v \<Rightarrow> (t2, Cb v)
                          | None \<Rightarrow> (t2, Uncaught))))
      | TransportError msg \<Rightarrow>
          ([Assertion False (problem_message method path msg)], OnError))"

section \<open>postFlow\<close>

definition redPort :: nat where
  "redPort = 1880"

definition wsPort :: nat where
  "wsPort = 1888"

text \<open>
  The callbacks that \<^verbatim>\<open>postFlow\<close> hands on, by name: \<open>Done\<close> is its parameter
  \<^verbatim>\<open>done\<close>, \<open>FlowPosted\<close> the callback of the POST request (lines 69 to 125),
  \<open>OnComplete\<close> the last argument of \<^verbatim>\<open>setInterval\<close> (lines 104 to 107),
  \<open>Closedown\<close> the callback of the deletion on the message path (lines 115 to 119), and
  \<open>Thunk k\<close> a wrapper \<^verbatim>\<open>() => k()\<close> (lines 85 and 96).
\<close>

datatype cont = Done | FlowPosted | OnComplete | Closedown | Thunk cont

record request =
  req_host :: string
  req_port :: nat
  req_path :: string
  req_method :: string
  content_type :: string
  content_length :: nat
  req_payload :: string
  expected :: int
  req_onError :: cont
  req_cb :: cont

record params =
  count :: int
  flowTimeout :: jsval
  keepFlow :: jsval

text \<open>
  The state of one test run: the tape object, \<open>params\<close>, the variables of the closure of
  lines 72 to 76 and \<open>res.id\<close>, whether the connection listener is registered and a
  connection was accepted, the period of the running timer (\<open>None\<close> before
  \<^verbatim>\<open>setInterval\<close> and after \<^verbatim>\<open>clearInterval\<close>), the requests sent and not yet answered,
  the number of \<^verbatim>\<open>ws.close()\<close> calls, and whether an exception escaped a callback.
  \<open>calls\<close> is the history of the continuations invoked, in order.
\<close>

record run =
  tape :: "tap list"
  params :: params
  res_id :: jsval
  lastCount :: int
  endReceived :: bool
  doneClosedown :: bool
  timeout :: jsval
  listening :: bool
  connected :: bool
  interval :: "jsval option"
  pending :: "request list"
  closes :: nat
  crashed :: bool
  calls :: "cont list"

text \<open>
  The test's message handler \<^verbatim>\<open>onMsg(t, params, msgObj, end)\<close>: what it reports to \<open>t\<close>,
  the \<open>params\<close> it leaves, and whether it then invokes \<^verbatim>\<open>end\<close>.
\<close>

type_synonym handler = "params \<Rightarrow> jsval \<Rightarrow> tap list \<times> params \<times> bool"

text \<open>A call \<^verbatim>\<open>done()\<close> of the parameter of \<^verbatim>\<open>postFlow\<close>.\<close>

definition call_done :: "run \<Rightarrow> run" where
  "call_done s = s\<lparr>calls := calls s @ [Done]\<rparr>"

fun apply_cont :: "cont \<Rightarrow> jsval \<Rightarrow> run \<Rightarrow> run" where
  "apply_cont Done v s = call_done s"
| "apply_cont FlowPosted res s =
     (let s1 = s\<lparr>calls := calls s @ [FlowPosted]\<rparr>
      in case get_prop res ''id'' of
           None \<Rightarrow> s1\<lparr>crashed := True\<rparr>
         | Some i \<Rightarrow>
             s1\<lparr>tape := tape s1 @ [Assertion (truthy i) ''response has flow id''],
                params := (params s1)\<lparr>count := 0\<rparr>,
                lastCount := - 1,
                endReceived := False,
                doneClosedown := False,
                timeout := (if truthy (flowTimeout (params s1))
                            then flowTimeout (params s1) else JNum 1000),
                res_id := i,
                listening := True\<rparr>)"
| "apply_cont OnComplete v s =
     call_done (s\<lparr>calls := calls s @ [OnComplete], interval := None\<rparr>)"
| "apply_cont Closedown v s =
     call_done
       (s\<lparr>calls := calls s @ [Closedown], doneClosedown := True, interval := None\<rparr>)"
| "apply_cont (Thunk k) v s =
     apply_cont k JUndefined (s\<lparr>calls := calls s @ [Thunk k]\<rparr>)"

text \<open>\<^verbatim>\<open>adminApiReq\<close> up to \<^verbatim>\<open>req.end()\<close>: the request is sent and waits for its outcome.\<close>

definition adminApiReq ::
  "string \<Rightarrow> string \<Rightarrow> string \<Rightarrow> int \<Rightarrow> cont \<Rightarrow> cont \<Rightarrow> run \<Rightarrow> run" where
  "adminApiReq method path payload response onErr k s =
     s\<lparr>pending := pending s @
        [\<lparr>req_host = ''localhost'', req_port = redPort, req_path = path,
          req_method = method, content_type = ''application/json'',
          content_length = length payload, req_payload = payload,
          expected = response, req_onError = onErr, req_cb = k\<rparr>]\<rparr>"

definition deleteFlow :: "ecma \<Rightarrow> jsval \<Rightarrow> cont \<Rightarrow> run \<Rightarrow> run" where
  "deleteFlow E flowId k s =
     (if truthy (keepFlow (params s)) then
        apply_cont k JUndefined
          (s\<lparr>tape := tape s @ [Comment ''!!! NOT deleting test flow !!!'']\<rparr>)
      else
        (let s1 = s\<lparr>tape := tape s @ [Comment ''Delete test flow'']\<rparr>;
             testFlowDel = ''{'' @ [CHR 0x22] @ ''id'' @ [CHR 0x22] @ '' : '' @
                           [CHR 0x22] @ template E flowId @ [CHR 0x22] @ ''}''
         in adminApiReq ''DELETE'' (''/flow/'' @ template E flowId) testFlowDel 204
              k (Thunk k) s1))"

definition checkCompleted :: "ecma \<Rightarrow> jsval \<Rightarrow> cont \<Rightarrow> run \<Rightarrow> run" where
  "checkCompleted E flowId onComplete s =
     (let s1 =
        (if doneClosedown s then apply_cont onComplete JUndefined s
         else if count (params s) = lastCount s then
           (let s2 = s\<lparr>tape := tape s @
                       [Comment ''Check for correct closedown'',
                        Assertion (endReceived s) ''end message has been received'',
                        Assertion (doneClosedown s) ''closedown has been completed'']\<rparr>;
                s3 = deleteFlow E flowId (Thunk onComplete) s2
            in s3\<lparr>doneClosedown := True\<rparr>)
         else s)
      in s1\<lparr>lastCount := count (params s1)\<rparr>)"

text \<open>The \<^verbatim>\<open>end\<close> continuation given to the message handler (lines 113 to 120).\<close>

definition end_received :: "ecma \<Rightarrow> run \<Rightarrow> run" where
  "end_received E s = deleteFlow E (res_id s) Closedown (s\<lparr>endReceived := True\<rparr>)"

text \<open>The \<^verbatim>\<open>'message'\<close> listener (lines 110 to 123).\<close>

definition on_message :: "ecma \<Rightarrow> handler \<Rightarrow> string \<Rightarrow> run \<Rightarrow> run" where
  "on_message E onMsg msg s =
     (case JSON_parse E msg of
        None \<Rightarrow> s\<lparr>crashed := True\<rparr>
      | Some msgObj \<Rightarrow>
          (case onMsg (params s) msgObj of
             (lg, p, fin) \<Rightarrow>
               (let s1 = s\<lparr>tape := tape s @ lg, params := p\<rparr>;
                    s2 = (if fin then end_received E s1 else s1)
                in case hasOwnProperty msgObj ''close'' of
                     None \<Rightarrow> s2\<lparr>crashed := True\<rparr>
                   | Some c \<Rightarrow> (if c then s2\<lparr>closes := closes s2 + 1\<rparr> else s2))))"

text \<open>The \<^verbatim>\<open>'connection'\<close> listener (lines 102 to 124); \<^verbatim>\<open>WebSocket.OPEN\<close> is 1.\<close>

definition on_connection :: "nat \<Rightarrow> run \<Rightarrow> run" where
  "on_connection readyState s =
     s\<lparr>tape := tape s @ [Assertion (readyState = 1) ''websocket connection is open'',
                         Comment ''Check for expected data from flow''],
       interval := Some (timeout s),
       connected := True\<rparr>"

text \<open>The answer to a request that was sent: its callbacks run, with its continuations.\<close>

definition on_reply :: "ecma \<Rightarrow> nat \<Rightarrow> outcome \<Rightarrow> run \<Rightarrow> run" where
  "on_reply E n out s =
     (let r = pending s ! n
      in case adminApiReq_reply E (req_method r) (req_path r) (expected r) out of
           (lg, what) \<Rightarrow>
             (let s1 = s\<lparr>pending := take n (pending s) @ drop (Suc n) (pending s),
                          tape := tape s @ lg\<rparr>
              in case what of
                   OnError \<Rightarrow> apply_cont (req_onError r) JUndefined s1
                 | Cb v \<Rightarrow> apply_cont (req_cb r) v s1
                 | Uncaught \<Rightarrow> s1\<lparr>crashed := True\<rparr>))"

text \<open>
  What the event loop delivers: the answer to the \<open>n\<close>-th unanswered request, the one
  connection of the flow's output node, a tick of the timer, a message on the connection.
  An event is delivered to a listener that exists; nothing runs after an uncaught exception.
  The output node of the flow connects once (step 2 of the protocol), and each request has
  one outcome: a run with a second connection is not among the runs described here.
\<close>

datatype event = Reply nat outcome | Connection nat | Tick | Message string

definition step :: "ecma \<Rightarrow> handler \<Rightarrow> run \<Rightarrow> event \<Rightarrow> run" where
  "step E onMsg s ev =
     (if crashed s then s
      else case ev of
        Reply n out \<Rightarrow> (if n < length (pending s) then on_reply E n out s else s)
      | Connection readyState \<Rightarrow>
          (if listening s \<and> \<not> connected s then on_connection readyState s else s)
      | Tick \<Rightarrow>
          (if interval s \<noteq> None then checkCompleted E (res_id s) OnComplete s else s)
      | Message msg \<Rightarrow> (if connected s then on_message E onMsg msg s else s))"

text \<open>
  \<^verbatim>\<open>postFlow\<close> itself sends the POST request (line 69); \<open>flow\<close> is
  \<^verbatim>\<open>JSON.stringify(getFlow(params))\<close>. The closure variables exist once \<open>FlowPosted\<close> has run.
\<close>

definition postFlow :: "tap list \<Rightarrow> params \<Rightarrow> string \<Rightarrow> run" where
  "postFlow t p flow =
     adminApiReq ''POST'' ''/flow'' flow 200 Done FlowPosted
       \<lparr>tape = t, params = p, res_id = JUndefined, lastCount = - 1, endReceived = False,
        doneClosedown = False, timeout = JUndefined, listening = False, connected = False,
        interval = None, pending = [], closes = 0, crashed = False, calls = []\<rparr>"

definition run_events :: "ecma \<Rightarrow> handler \<Rightarrow> run \<Rightarrow> event list \<Rightarrow> run" where
  "run_events E onMsg s evs = foldl (step E onMsg) s evs"

definition doneCalls :: "run \<Rightarrow> nat" where
  "doneCalls s = count_list (calls s) Done"

section \<open>checkGrain\<close>

text \<open>
  \<^verbatim>\<open>Grain.js\<close> is not among the sources: the constructor is a parameter, called with the
  seven arguments of line 211, and a grain is the record of the properties read afterwards.
  A message object is the list of its own properties. A call of \<^verbatim>\<open>checkGrain\<close> leaves
  the tape object as far as it was reported to, and either returns the grain or throws.
\<close>

record grain =
  ptpSync :: jsval
  ptpOrigin :: jsval
  flow_id :: jsval
  source_id :: jsval
  duration :: jsval

type_synonym grain_new =
  "jsval \<Rightarrow> jsval \<Rightarrow> jsval \<Rightarrow> jsval \<Rightarrow> jsval \<Rightarrow> jsval \<Rightarrow> jsval \<Rightarrow> grain"

datatype exn = TypeError

definition field :: "(string \<times> jsval) list \<Rightarrow> string \<Rightarrow> jsval" where
  "field obj k = (case map_of obj k of Some v \<Rightarrow> v | None \<Rightarrow> JUndefined)"

text \<open>\<^verbatim>\<open>obj.hasOwnProperty(k)\<close> on a message object; \<open>None\<close> is the TypeError.\<close>

definition own :: "(string \<times> jsval) list \<Rightarrow> string \<Rightarrow> bool option" where
  "own obj k = hasOwnProperty (JObj obj) k"

text \<open>\<^verbatim>\<open>checkGrain\<close> of \<^verbatim>\<open>testUtil.js\<close> (lines 210 to 222).\<close>

definition checkGrain ::
  "ecma \<Rightarrow> grain_new \<Rightarrow> tap list \<Rightarrow> (string \<times> jsval) list \<Rightarrow> tap list \<times> (exn + grain)" where
  "checkGrain E Grain t obj =
     (let g = Grain JNull
                (field obj ''ptpSyncTimestamp'') (field obj ''ptpOriginTimestamp'')
                (field obj ''timecode'')
                (field obj ''flow_id'') (field obj ''source_id'') (field obj ''duration'')
      in case own obj ''payloadCount'' of
           None \<Rightarrow> (t, Inl TypeError)
         | Some hasCount \<Rightarrow>
             (let t1 = t @ [Assertion
                              (strict_equal_num
                                 (if hasCount then field obj ''payloadCount'' else JNum 0) 1)
                              ''has single payload'']
              in case own obj ''payloadSize'' of
                   None \<Rightarrow> (t1, Inl TypeError)
                 | Some hasSize \<Rightarrow>
                     (case gt_zero E (if hasSize then field obj ''payloadSize'' else JNum 0) of
                        None \<Rightarrow> (t1, Inl TypeError)
                      | Some positive \<Rightarrow>
                          (let t2 = t1 @ [Assertion positive ''has payload contents''];
                               t3 = t2 @ [Assertion (truthy (ptpSync g))
                                            ''has valid PTP sync timestamp''];
                               t4 = t3 @ [Assertion (truthy (ptpOrigin g))
                                            ''has valid PTP origin timestamp''];
                               t5 = t4 @ [Assertion (truthy (flow_id g)) ''has valid flow id''];
                               t6 = t5 @ [Assertion (truthy (source_id g))
                                            ''has valid source id''];
                               t7 = t6 @ [Assertion (truthy (duration g)) ''has valid duration'']
                           in (t7, Inr g)))))"

text \<open>\<^verbatim>\<open>checkGrain\<close> of the older module (\<^verbatim>\<open>part_000\<close>, lines 203 to 215).\<close>

definition checkGrain_old ::
  "ecma \<Rightarrow> grain_new \<Rightarrow> tap list \<Rightarrow> (string \<times> jsval) list \<Rightarrow> tap list \<times> (exn + grain)" where
  "checkGrain_old E Grain t obj =
     (let g = Grain JNull
                (field obj ''ptpSyncTimestamp'') (field obj ''ptpOriginTimestamp'')
                (field obj ''timecode'')
                (field obj ''flow_id'') (field obj ''source_id'') (field obj ''duration'')
      in case own obj ''payloadCount'' of
           None \<Rightarrow> (t, Inl TypeError)
         | Some hasCount \<Rightarrow>
             (let t1 = t @ [Assertion
                              (strict_equal_num
                                 (if hasCount then field obj ''payloadCount'' else JNum 0) 1)
                              ''has single payload'']
              in case own obj ''payloadSize'' of
                   None \<Rightarrow> (t1, Inl TypeError)
                 | Some hasSize \<Rightarrow>
                     (case gt_zero E (if hasSize then field obj ''payloadSize'' else JNum 0) of
                        None \<Rightarrow> (t1, Inl TypeError)
                      | Some positive \<Rightarrow>
                          (let t2 = t1 @ [Assertion positive ''has payload contents''];
                               t3 = t2 @ [Assertion (truthy (ptpSync g))
                                            ''has valid PTP sync timestamp''];
                               t4 = t3 @ [Assertion (truthy (ptpOrigin g))
                                            ''has valid PTP origin timestamp''];
                               t5 = t4 @ [Assertion (truthy (flow_id g)) ''has valid flow id''];
                               t6 = t5 @ [Assertion (truthy (source_id g))
                                            ''has valid source id''];
                               t7 = t6 @ [Assertion (truthy (duration g)) ''has valid duration'']
                           in (t7, Inr g)))))"

section \<open>download and rimraf\<close>

text \<open>
  The file system is a tree: a file with its contents, or a directory with its entries by
  name. A path is the list of its components below the root, so that
  \<^verbatim>\<open>path.join(dir, name)\<close> is \<open>dir @ [name]\<close>. The functions of \<^verbatim>\<open>fs\<close> return the
  error code of a failed call on the left, the changed tree on the right. \<open>Other c\<close> is a
  code \<open>c\<close> that has no name of its own here.
\<close>

datatype node = File string | Dir "(string \<times> node) list"

datatype errno =
  EEXIST | ENOENT | ENOTDIR | ENOTEMPTY | EISDIR | EBUSY | EACCES | EROFS | ENOSPC | Other string

fun lookup :: "node \<Rightarrow> string list \<Rightarrow> node option" where
  "lookup n [] = Some n"
| "lookup (File c) (x # xs) = None"
| "lookup (Dir es) (x # xs) =
     (case map_of es x of None \<Rightarrow> None | Some m \<Rightarrow> lookup m xs)"

text \<open>The directory at a path with its entries changed by \<open>f\<close>.\<close>

fun modify_dir ::
  "node \<Rightarrow> string list \<Rightarrow> ((string \<times> node) list \<Rightarrow> (string \<times> node) list) \<Rightarrow> node" where
  "modify_dir (Dir es) [] f = Dir (f es)"
| "modify_dir (Dir es) (x # xs) f = Dir (AList.map_entry x (\<lambda>m. modify_dir m xs f) es)"
| "modify_dir (File c) p f = File c"

definition isDirectory :: "node \<Rightarrow> bool" where
  "isDirectory n = (case n of Dir es \<Rightarrow> True | File c \<Rightarrow> False)"

definition exists :: "node \<Rightarrow> string list \<Rightarrow> bool" where
  "exists fs p = (lookup fs p \<noteq> None)"

definition readdir :: "node \<Rightarrow> string list \<Rightarrow> errno + string list" where
  "readdir fs p =
     (case lookup fs p of
        None \<Rightarrow> Inl ENOENT
      | Some (File c) \<Rightarrow> Inl ENOTDIR
      | Some (Dir es) \<Rightarrow> Inr (map fst es))"

definition lstat :: "node \<Rightarrow> string list \<Rightarrow> errno + node" where
  "lstat fs p = (case lookup fs p of None \<Rightarrow> Inl ENOENT | Some n \<Rightarrow> Inr n)"

definition unlink :: "node \<Rightarrow> string list \<Rightarrow> errno + node" where
  "unlink fs p =
     (case lookup fs p of
        None \<Rightarrow> Inl ENOENT
      | Some (Dir es) \<Rightarrow> Inl EISDIR
      | Some (File c) \<Rightarrow>
          (if p = [] then Inl EBUSY
           else Inr (modify_dir fs (butlast p) (AList.delete (last p)))))"

definition rmdir :: "node \<Rightarrow> string list \<Rightarrow> errno + node" where
  "rmdir fs p =
     (case lookup fs p of
        None \<Rightarrow> Inl ENOENT
      | Some (File c) \<Rightarrow> Inl ENOTDIR
      | Some (Dir es) \<Rightarrow>
          (if p = [] then Inl EBUSY
           else if es \<noteq> [] then Inl ENOTEMPTY
           else Inr (modify_dir fs (butlast p) (AList.delete (last p)))))"

text \<open>
  \<^verbatim>\<open>fs.mkdir\<close>. The operating system may refuse the call for a reason that the tree does
  not show (the permissions of the parent, a volume that is read-only or full, ...):
  \<open>refused\<close> is the code of that refusal, \<open>None\<close> when there is none.
\<close>

definition mkdir :: "errno option \<Rightarrow> node \<Rightarrow> string list \<Rightarrow> errno + node" where
  "mkdir refused fs p =
     (case refused of
        Some e \<Rightarrow> Inl e
      | None \<Rightarrow>
          (if lookup fs p \<noteq> None then Inl EEXIST
           else case lookup fs (butlast p) of
                  None \<Rightarrow> Inl ENOENT
                | Some (File c) \<Rightarrow> Inl ENOTDIR
                | Some (Dir es) \<Rightarrow>
                    Inr (modify_dir fs (butlast p) (\<lambda>es. es @ [(last p, Dir [])]))))"

text \<open>
  The write stream of \<^verbatim>\<open>fs.createWriteStream\<close> with the source piped into it, up to
  \<^verbatim>\<open>'finish'\<close> or \<^verbatim>\<open>'error'\<close>: the file is created or replaced.
\<close>

definition write_file :: "node \<Rightarrow> string list \<Rightarrow> string \<Rightarrow> errno + node" where
  "write_file fs p c =
     (case lookup fs (butlast p) of
        None \<Rightarrow> Inl ENOENT
      | Some (File d) \<Rightarrow> Inl ENOTDIR
      | Some (Dir es) \<Rightarrow>
          (if p = [] \<or> (case map_of es (last p) of Some m \<Rightarrow> isDirectory m | None \<Rightarrow> False)
           then Inl EISDIR
           else Inr (modify_dir fs (butlast p) (AList.update (last p) (File c)))))"

text \<open>
  The second half of \<^verbatim>\<open>download\<close> (lines 230 to 235): the fetch and the write into the
  staging directory. The result is the tree as the call leaves it, and the error of the
  rejection or \<open>()\<close>.
\<close>

definition download_fetch ::
  "(string \<Rightarrow> errno + string) \<Rightarrow> string list \<Rightarrow> node \<Rightarrow> string \<Rightarrow> string \<Rightarrow>
   node \<times> (errno + unit)" where
  "download_fetch getUri dirname fs uri file =
     (case getUri uri of
        Inl e \<Rightarrow> (fs, Inl e)
      | Inr srcStream \<Rightarrow>
          (case write_file fs (dirname @ [''tmp'', file]) srcStream of
             Inl e \<Rightarrow> (fs, Inl e)
           | Inr fs1 \<Rightarrow> (fs1, Inr ())))"

text \<open>
  \<^verbatim>\<open>download\<close> (lines 224 to 236). \<open>getUri\<close> is the promisified \<^verbatim>\<open>get-uri\<close>: the
  contents of the resource or the error of the fetch; \<open>refused\<close> is the refusal of
  \<^verbatim>\<open>mkdir\<close>, if any; \<open>dirname\<close> is \<^verbatim>\<open>__dirname\<close>; \<open>file\<close> is the name of a file: one
  path component, not empty and neither \<^verbatim>\<open>.\<close> nor \<^verbatim>\<open>..\<close>.
\<close>

definition download ::
  "(string \<Rightarrow> errno + string) \<Rightarrow> errno option \<Rightarrow> string list \<Rightarrow> node \<Rightarrow> string \<Rightarrow> string \<Rightarrow>
   node \<times> (errno + unit)" where
  "download getUri refused dirname fs uri file =
     (case mkdir refused fs (dirname @ [''tmp'']) of
        Inl e \<Rightarrow>
          (if e \<noteq> EEXIST then (fs, Inl e) else download_fetch getUri dirname fs uri file)
      | Inr fs1 \<Rightarrow> download_fetch getUri dirname fs1 uri file)"

text \<open>
  The callback mapped over the listing in \<^verbatim>\<open>rimraf\<close> (lines 241 to 245), with \<open>rec\<close> for
  the recursive call: \<open>None\<close> is a call that has not returned.
\<close>

definition rimraf_entry ::
  "(node \<Rightarrow> string list \<Rightarrow> (errno + node) option) \<Rightarrow> string list \<Rightarrow> string \<Rightarrow>
   (errno + node) option \<Rightarrow> (errno + node) option" where
  "rimraf_entry rec dir name acc =
     (case acc of
        Some (Inr fs) \<Rightarrow>
          (let filename = dir @ [name]
           in case lstat fs filename of
                Inl e \<Rightarrow> Some (Inl e)
              | Inr stat \<Rightarrow>
                  (if isDirectory stat then rec fs filename else Some (unlink fs filename)))
      | other \<Rightarrow> other)"

text \<open>
  The body of \<^verbatim>\<open>rimraf\<close> (lines 238 to 248). The promises of the mapped callbacks are run
  one after the other in the order of the listing; the first rejection is the rejection of
  \<^verbatim>\<open>Promise.all\<close>, and \<^verbatim>\<open>rmdir\<close> is then not reached.
\<close>

definition rimraf_body ::
  "(node \<Rightarrow> string list \<Rightarrow> (errno + node) option) \<Rightarrow> node \<Rightarrow> string list \<Rightarrow>
   (errno + node) option" where
  "rimraf_body rec fs dir =
     (if exists fs dir then
        (case readdir fs dir of
           Inl e \<Rightarrow> Some (Inl e)
         | Inr list \<Rightarrow>
             (case fold (rimraf_entry rec dir) list (Some (Inr fs)) of
                Some (Inr fs1) \<Rightarrow> Some (rmdir fs1 dir)
              | other \<Rightarrow> other))
      else Some (Inr fs))"

text \<open>
  \<^verbatim>\<open>rimraf\<close>, with the depth of its recursion bounded by \<open>n\<close>: \<open>None\<close> when a call
  nested deeper than \<open>n\<close> would be needed.
\<close>

fun rimraf :: "nat \<Rightarrow> node \<Rightarrow> string list \<Rightarrow> (errno + node) option" where
  "rimraf 0 fs dir = rimraf_body (\<lambda>fs1 p. None) fs dir"
| "rimraf (Suc n) fs dir = rimraf_body (rimraf n) fs dir"

definition delTmp :: "nat \<Rightarrow> string list \<Rightarrow> node \<Rightarrow> (errno + node) option" where
  "delTmp n dirname fs = rimraf n fs (dirname @ [''tmp''])"

text \<open>Names are unique within a directory, everywhere in the tree.\<close>

fun wf_node :: "node \<Rightarrow> bool" where
  "wf_node (File c) = True"
| "wf_node (Dir es) = (distinct (map fst es) \<and> (\<forall>m \<in> snd ` set es. wf_node m))"

text \<open>The number of directory levels of a tree.\<close>

fun levels :: "node \<Rightarrow> nat" where
  "levels (File c) = 0"
| "levels (Dir es) = Suc (fold max (map (\<lambda>e. levels (snd e)) es) 0)"

text \<open>The tree without the entry at a path.\<close>

definition remove_entry :: "node \<Rightarrow> string list \<Rightarrow> node" where
  "remove_entry fs p = modify_dir fs (butlast p) (AList.delete (last p))"

section \<open>Auxiliary notions\<close>

text \<open>The continuations that run, in order, when \<open>k\<close> is invoked.\<close>

fun trace_of :: "cont \<Rightarrow> cont list" where
  "trace_of Done = [Done]"
| "trace_of FlowPosted = [FlowPosted]"
| "trace_of OnComplete = [OnComplete, Done]"
| "trace_of Closedown = [Closedown, Done]"
| "trace_of (Thunk k) = Thunk k # trace_of k"


text \<open>
  The number that the payload size of a message converts to in line 215, where a missing
  payload size counts as 0.
\<close>

definition payloadSize_number :: "ecma \<Rightarrow> (string \<times> jsval) list \<Rightarrow> conversion" where
  "payloadSize_number E obj =
     (case map_of obj ''payloadSize'' of
        None \<Rightarrow> Number 0
      | Some v \<Rightarrow> (case v of JNum n \<Rightarrow> Number n | _ \<Rightarrow> ToNumber E v))"


section \<open>Sample inputs\<close>

definition quoted :: "string \<Rightarrow> string" where
  "quoted s = [CHR 0x22] @ s @ [CHR 0x22]"

definition flow_reply :: string where
  "flow_reply = ''{'' @ quoted ''id'' @ '':'' @ quoted ''91ad451.f6e52b8'' @ ''}''"

definition push_message :: string where
  "push_message = ''{'' @ quoted ''push'' @ '':1}''"

definition end_message :: string where
  "end_message = ''{'' @ quoted ''end'' @ '':true}''"

text \<open>Decimal digits: the number a string of digits denotes, and the digits of a number.\<close>

definition is_digits :: "string \<Rightarrow> bool" where
  "is_digits s =
     (s \<noteq> [] \<and> list_all (\<lambda>c. 48 \<le> (of_char c :: nat) \<and> (of_char c :: nat) \<le> 57) s)"

definition digits_value :: "string \<Rightarrow> nat" where
  "digits_value s = foldl (\<lambda>a c. 10 * a + (of_char c - 48)) 0 s"

fun decimal :: "nat \<Rightarrow> string" where
  "decimal n =
     (if n < 10 then [char_of (48 + n)] else decimal (n div 10) @ [char_of (48 + n mod 10)])"

text \<open>
  The library operations as far as the sample inputs need them. \<^verbatim>\<open>JSON.parse\<close> is given
  on the texts of the sample runs and on the empty text, which is a SyntaxError.
  The string conversion is given on \<^verbatim>\<open>undefined\<close>, \<^verbatim>\<open>null\<close>, the booleans, the natural
  numbers, the empty array and the objects that have no \<^verbatim>\<open>toString\<close> of their own; the
  number conversion on \<^verbatim>\<open>undefined\<close>, \<^verbatim>\<open>null\<close>, the booleans, the empty string, the
  strings of digits, the empty array and the objects. No sample input makes them convert a
  value outside these.
\<close>

definition sample_ecma :: ecma where
  "sample_ecma =
     \<lparr>JSON_parse = (\<lambda>s. if s = flow_reply then Some (JObj [(''id'', JStr ''91ad451.f6e52b8'')])
                         else if s = push_message then Some (JObj [(''push'', JNum 1)])
                         else if s = end_message then Some (JObj [(''end'', JBool True)])
                         else None),
      ToString = (\<lambda>v. case v of
                          JUndefined \<Rightarrow> ''undefined''
                        | JNull \<Rightarrow> ''null''
                        | JBool b \<Rightarrow> (if b then ''true'' else ''false'')
                        | JNum n \<Rightarrow> decimal (nat \<lfloor>n\<rfloor>)
                        | JStr s \<Rightarrow> s
                        | JArr xs \<Rightarrow> []
                        | JObj kvs \<Rightarrow> ''[object Object]''),
      ToNumber = (\<lambda>v. case v of
                          JUndefined \<Rightarrow> NaN
                        | JNull \<Rightarrow> Number 0
                        | JBool b \<Rightarrow> Number (if b then 1 else 0)
                        | JNum n \<Rightarrow> Number n
                        | JStr s \<Rightarrow>
                            (if s = [] then Number 0
                             else if is_digits s then Number (real (digits_value s)) else NaN)
                        | JArr xs \<Rightarrow> (if xs = [] then Number 0 else NaN)
                        | JObj kvs \<Rightarrow> (if ''toString'' \<in> fst ` set kvs then Throws else NaN))\<rparr>"

text \<open>A message handler as a test writes it: it counts the messages and ends at the end marker.\<close>

definition sample_onMsg :: handler where
  "sample_onMsg p msgObj =
     (if hasOwnProperty msgObj ''end'' = Some True then ([], p, True)
      else ([], p\<lparr>count := count p + 1\<rparr>, False))"

definition sample_params :: params where
  "sample_params = \<lparr>count = 0, flowTimeout = JUndefined, keepFlow = JUndefined\<rparr>"


definition posted :: "params \<Rightarrow> run" where
  "posted p =
     run_events sample_ecma sample_onMsg (postFlow [] p ''{}'')
       [Reply 0 (Response 200 (Some ''application/json; charset=utf-8'') [flow_reply]),
        Connection 1]"



definition sample_Grain :: grain_new where
  "sample_Grain b s orig tc f src d =
     \<lparr>ptpSync = s, ptpOrigin = orig, flow_id = f, source_id = src, duration = d\<rparr>"

definition sample_obj :: "(string \<times> jsval) list" where
  "sample_obj =
     [(''payloadCount'', JNum 1), (''payloadSize'', JNum 1024),
      (''ptpSyncTimestamp'', JStr ''1481888705:826892663''),
      (''ptpOriginTimestamp'', JStr ''1481888705:826892663''),
      (''flow_id'', JStr ''4223aa8d-9e3f-4a08-b0ba-863f26268b6f''),
      (''source_id'', JStr ''29f6f6d8-4c11-4f4b-8a59-0bc4b8e0c5be''),
      (''duration'', JArr [JNum 1, JNum 25])]"

definition sample_fs :: node where
  "sample_fs =
     Dir [(''test'',
           Dir [(''tmp'', Dir [(''a.wav'', File ''RIFF''),
                               (''sub'', Dir [(''b.txt'', File ''b''), (''deep'', Dir [])]),
                               (''c.txt'', File ''c'')]),
                (''testUtil.js'', File ''js'')]),
          (''README.md'', File ''readme'')]"

text \<open>The sample message with one more property, named \<^verbatim>\<open>hasOwnProperty\<close>.\<close>

definition shadowing_obj :: "(string \<times> jsval) list" where
  "shadowing_obj = (''hasOwnProperty'', JBool True) # sample_obj"

text \<open>A message whose payload size is an object with a \<^verbatim>\<open>toString\<close> that is no function.\<close>

definition unconvertible_obj :: "(string \<times> jsval) list" where
  "unconvertible_obj =
     [(''payloadCount'', JNum 1), (''payloadSize'', JObj [(''toString'', JNum 1)])]"

definition sample_getUri :: "string \<Rightarrow> errno + string" where
  "sample_getUri uri = (if uri = ''http://localhost/x.wav'' then Inr ''RIFF'' else Inl (Other ''ENOTFOUND''))"

section \<open>Continuations and the history of calls\<close>

lemma calls_apply_cont: "calls (apply_cont k v s) = calls s @ trace_of k"
  by (induction k arbitrary: v s) (simp_all add: call_done_def Let_def split: option.split)






lemmas run_defs =
  run_events_def posted_def postFlow_def step_def on_reply_def on_connection_def
  on_message_def checkCompleted_def deleteFlow_def adminApiReq_def adminApiReq_reply_def
  end_received_def call_done_def template_def get_prop_def hasOwnProperty_def is_json_def
  sample_ecma_def sample_onMsg_def sample_params_def
  flow_reply_def end_message_def push_message_def quoted_def redPort_def Let_def

section \<open>The admin requests\<close>

text \<open>
  C2, as amended. A response whose status is neither 200 nor 204 ends in the error
  continuation, after the report of the status comparison, and the success callback is not
  reached; a transport error ends in the error continuation after a failure is reported
  whose message holds the method and the path. A response with status 204 ends in the
  success callback with \<^verbatim>\<open>null\<close>, and a response with status 200, after the report on its
  content type, in the success callback with the parsed body, whatever status was expected:
  only the report of the comparison tells that it was not the expected one. When the body
  of a response with status 200 is not JSON, the exception of \<^verbatim>\<open>JSON.parse\<close> escapes and
  no continuation is invoked.
\<close>

theorem adminApiReq_error_paths:
  "(statusCode \<noteq> 200 \<and> statusCode \<noteq> 204 \<longrightarrow>
      adminApiReq_reply E method path response (Response statusCode contentType chunks) =
        ([Assertion (statusCode = response) ''status code is Success''], OnError)) \<and>
   adminApiReq_reply E method path response (Response 204 contentType chunks) =
     ([Assertion (204 = response) ''status code is Success''], Cb JNull) \<and>
   adminApiReq_reply E method path response (Response 200 contentType chunks) =
     ([Assertion (200 = response) ''status code is Success'',
       Assertion (is_json contentType) ''content type is application/json''],
      case JSON_parse E (concat chunks) of Some v \<Rightarrow> Cb v | None \<Rightarrow> Uncaught) \<and>
   adminApiReq_reply E method path response (TransportError msg) =
     ([Assertion False (problem_message method path msg)], OnError) \<and>
   (statusCode \<noteq> 200 \<and> statusCode \<noteq> 204 \<longrightarrow>
      calls (on_reply E n (Response statusCode contentType chunks) s) =
        calls s @ trace_of (req_onError (pending s ! n))) \<and>
   calls (on_reply E n (TransportError msg) s) =
     calls s @ trace_of (req_onError (pending s ! n)) \<and>
   calls (on_reply E n (Response 204 contentType chunks) s) =
     calls s @ trace_of (req_cb (pending s ! n)) \<and>
   calls (on_reply E n (Response 200 contentType chunks) s) =
     (case JSON_parse E (concat chunks) of
        Some v \<Rightarrow> calls s @ trace_of (req_cb (pending s ! n))
      | None \<Rightarrow> calls s) \<and>
   (JSON_parse E (concat chunks) = None \<longrightarrow>
      crashed (on_reply E n (Response 200 contentType chunks) s))"
  by (simp add: adminApiReq_reply_def on_reply_def calls_apply_cont Let_def split: option.split)

text \<open>
  C2, the amended statement at a DELETE request that expects 204 and at the POST request of
  the sample run.
\<close>

theorem adminApiReq_error_paths_witness:
  "adminApiReq_reply sample_ecma ''DELETE'' ''/flow/1'' 204 (Response 404 None []) =
     ([Assertion False ''status code is Success''], OnError) \<and>
   adminApiReq_reply sample_ecma ''DELETE'' ''/flow/1'' 204 (Response 204 None []) =
     ([Assertion True ''status code is Success''], Cb JNull) \<and>
   adminApiReq_reply sample_ecma ''DELETE'' ''/flow/1'' 204 (Response 200 None []) =
     ([Assertion False ''status code is Success'',
       Assertion False ''content type is application/json''], Uncaught) \<and>
   adminApiReq_reply sample_ecma ''DELETE'' ''/flow/1'' 204 (TransportError ''socket hang up'') =
     ([Assertion False (problem_message ''DELETE'' ''/flow/1'' ''socket hang up'')], OnError) \<and>
   calls (on_reply sample_ecma 0 (Response 404 None []) (postFlow [] sample_params ''{}'')) = [Done] \<and>
   calls (on_reply sample_ecma 0 (TransportError ''socket hang up'')
            (postFlow [] sample_params ''{}'')) = [Done] \<and>
   calls (on_reply sample_ecma 0 (Response 204 None []) (postFlow [] sample_params ''{}'')) =
     [FlowPosted] \<and>
   calls (on_reply sample_ecma 0 (Response 200 None []) (postFlow [] sample_params ''{}'')) = [] \<and>
   crashed (on_reply sample_ecma 0 (Response 200 None []) (postFlow [] sample_params ''{}''))"
proof -
  have "calls (postFlow [] sample_params ''{}'') = [] \<and>
      req_onError (pending (postFlow [] sample_params ''{}'') ! 0) = Done \<and>
      req_cb (pending (postFlow [] sample_params ''{}'') ! 0) = FlowPosted"
    by (simp add: postFlow_def adminApiReq_def)
  moreover have "JSON_parse sample_ecma (concat []) = None \<and> \<not> is_json None"
    by (simp add: sample_ecma_def flow_reply_def push_message_def end_message_def quoted_def
        is_json_def)
  ultimately show ?thesis
    using adminApiReq_error_paths [of 404 sample_ecma "''DELETE''" "''/flow/1''" 204 None
        "[]" "''socket hang up''" 0 "postFlow [] sample_params ''{}''"]
    by simp
qed

text \<open>
  C2 as stated fails: a POST request that expects 200 and is answered 204 reports the failed
  comparison and goes on to the success callback, not to the error continuation.
\<close>

theorem adminApiReq_unexpected_204:
  "adminApiReq_reply sample_ecma ''POST'' ''/flow'' 200 (Response 204 None []) =
     ([Assertion False ''status code is Success''], Cb JNull)"
  by (simp add: adminApiReq_reply_def)

section \<open>Deleting the flow\<close>



section \<open>The stall check\<close>




section \<open>Completion\<close>

text \<open>
  C1. The run below signals completion twice. The stall check fires and sends its DELETE
  request; the end marker arrives before that request is answered, and the message path
  sends a DELETE request of its own; each answer then calls \<^verbatim>\<open>done\<close>.
\<close>

theorem postFlow_done_twice:
  "doneCalls
     (run_events sample_ecma sample_onMsg (postFlow [] sample_params ''{}'')
        [Reply 0 (Response 200 (Some ''application/json; charset=utf-8'') [flow_reply]),
         Connection 1, Tick, Tick, Message end_message,
         Reply 0 (Response 204 None []), Reply 0 (Response 404 None [])]) = 2"
  by (simp add: doneCalls_def run_defs)




section \<open>The grain validator\<close>

lemma own_map_of:
  "own obj k =
     (if ''hasOwnProperty'' \<in> fst ` set obj then None else Some (map_of obj k \<noteq> None))"
  by (simp add: own_def hasOwnProperty_def map_of_eq_None_iff)

lemma payloadCount_is_one:
  "strict_equal_num
     (if map_of obj ''payloadCount'' \<noteq> None then field obj ''payloadCount'' else JNum 0) 1 =
   (map_of obj ''payloadCount'' = Some (JNum 1))"
  by (auto simp: field_def strict_equal_num_def split: jsval.splits)

lemma payloadSize_is_positive:
  "gt_zero E (if map_of obj ''payloadSize'' \<noteq> None then field obj ''payloadSize'' else JNum 0) =
   (case payloadSize_number E obj of
      Number n \<Rightarrow> Some (0 < n)
    | NaN \<Rightarrow> Some False
    | Throws \<Rightarrow> None)"
  by (auto simp: field_def gt_zero_def payloadSize_number_def
      split: jsval.splits option.splits conversion.splits)

text \<open>
  C4, as amended. On a message object that has no own property named
  \<^verbatim>\<open>hasOwnProperty\<close> and whose payload size converts to a number or to NaN,
  \<^verbatim>\<open>checkGrain\<close> reports seven assertions to \<open>t\<close> and nothing else: the payload count is
  the number 1, the payload size is greater than 0, and the sync timestamp, the origin
  timestamp, the flow identifier, the source identifier and the duration of the grain are
  truthy. It returns the grain as the constructor made it from the fields of the message.
  On a message object with an own property named \<^verbatim>\<open>hasOwnProperty\<close> it throws a
  TypeError and reports nothing; on one whose payload size does not convert, it throws a
  TypeError after the report on the payload count.
\<close>

theorem checkGrain_assertions:
  assumes "g = Grain JNull (field obj ''ptpSyncTimestamp'') (field obj ''ptpOriginTimestamp'')
             (field obj ''timecode'') (field obj ''flow_id'') (field obj ''source_id'')
             (field obj ''duration'')"
  shows "(''hasOwnProperty'' \<notin> fst ` set obj \<and> payloadSize_number E obj \<noteq> Throws \<longrightarrow>
      checkGrain E Grain t obj =
        (t @ [Assertion (map_of obj ''payloadCount'' = Some (JNum 1)) ''has single payload'',
              Assertion (case payloadSize_number E obj of Number n \<Rightarrow> 0 < n | _ \<Rightarrow> False)
                ''has payload contents'',
              Assertion (truthy (ptpSync g)) ''has valid PTP sync timestamp'',
              Assertion (truthy (ptpOrigin g)) ''has valid PTP origin timestamp'',
              Assertion (truthy (flow_id g)) ''has valid flow id'',
              Assertion (truthy (source_id g)) ''has valid source id'',
              Assertion (truthy (duration g)) ''has valid duration''],
         Inr g)) \<and>
   (''hasOwnProperty'' \<in> fst ` set obj \<longrightarrow> checkGrain E Grain t obj = (t, Inl TypeError)) \<and>
   (''hasOwnProperty'' \<notin> fst ` set obj \<and> payloadSize_number E obj = Throws \<longrightarrow>
      checkGrain E Grain t obj =
        (t @ [Assertion (map_of obj ''payloadCount'' = Some (JNum 1)) ''has single payload''],
         Inl TypeError))"
proof -
  have shadowed: "checkGrain E Grain t obj = (t, Inl TypeError)"
    if "''hasOwnProperty'' \<in> fst ` set obj"
    using that by (simp add: checkGrain_def own_map_of)
  have plain: "checkGrain E Grain t obj =
      (case payloadSize_number E obj of
         Number n \<Rightarrow>
           (t @ [Assertion (map_of obj ''payloadCount'' = Some (JNum 1)) ''has single payload'',
                 Assertion (0 < n) ''has payload contents'',
                 Assertion (truthy (ptpSync g)) ''has valid PTP sync timestamp'',
                 Assertion (truthy (ptpOrigin g)) ''has valid PTP origin timestamp'',
                 Assertion (truthy (flow_id g)) ''has valid flow id'',
                 Assertion (truthy (source_id g)) ''has valid source id'',
                 Assertion (truthy (duration g)) ''has valid duration''],
            Inr g)
       | NaN \<Rightarrow>
           (t @ [Assertion (map_of obj ''payloadCount'' = Some (JNum 1)) ''has single payload'',
                 Assertion False ''has payload contents'',
                 Assertion (truthy (ptpSync g)) ''has valid PTP sync timestamp'',
                 Assertion (truthy (ptpOrigin g)) ''has valid PTP origin timestamp'',
                 Assertion (truthy (flow_id g)) ''has valid flow id'',
                 Assertion (truthy (source_id g)) ''has valid source id'',
                 Assertion (truthy (duration g)) ''has valid duration''],
            Inr g)
       | Throws \<Rightarrow>
           (t @ [Assertion (map_of obj ''payloadCount'' = Some (JNum 1)) ''has single payload''],
            Inl TypeError))"
    if "''hasOwnProperty'' \<notin> fst ` set obj"
  proof -
    have o: "own obj k = Some (map_of obj k \<noteq> None)" for k
      using that by (simp add: own_map_of)
    show ?thesis
      unfolding checkGrain_def Let_def o option.case payloadCount_is_one
        payloadSize_is_positive assms
      by (cases "payloadSize_number E obj") simp_all
  qed
  show ?thesis
    using shadowed plain by (auto split: conversion.splits)
qed

text \<open>
  C4 on a well-formed message, on a message whose payload count is a string and whose
  payload size is a string of digits, and on the two kinds of message that make it throw.
\<close>

theorem checkGrain_assertions_witness:
  "checkGrain sample_ecma sample_Grain [] sample_obj =
     ([Assertion True ''has single payload'',
       Assertion True ''has payload contents'',
       Assertion True ''has valid PTP sync timestamp'',
       Assertion True ''has valid PTP origin timestamp'',
       Assertion True ''has valid flow id'',
       Assertion True ''has valid source id'',
       Assertion True ''has valid duration''],
      Inr \<lparr>ptpSync = JStr ''1481888705:826892663'',
           ptpOrigin = JStr ''1481888705:826892663'',
           flow_id = JStr ''4223aa8d-9e3f-4a08-b0ba-863f26268b6f'',
           source_id = JStr ''29f6f6d8-4c11-4f4b-8a59-0bc4b8e0c5be'',
           duration = JArr [JNum 1, JNum 25]\<rparr>) \<and>
   checkGrain sample_ecma sample_Grain []
       [(''payloadCount'', JStr ''1''), (''payloadSize'', JStr ''1024'')] =
     ([Assertion False ''has single payload'',
       Assertion True ''has payload contents'',
       Assertion False ''has valid PTP sync timestamp'',
       Assertion False ''has valid PTP origin timestamp'',
       Assertion False ''has valid flow id'',
       Assertion False ''has valid source id'',
       Assertion False ''has valid duration''],
      Inr \<lparr>ptpSync = JUndefined, ptpOrigin = JUndefined, flow_id = JUndefined,
           source_id = JUndefined, duration = JUndefined\<rparr>) \<and>
   checkGrain sample_ecma sample_Grain [] shadowing_obj = ([], Inl TypeError) \<and>
   checkGrain sample_ecma sample_Grain [] unconvertible_obj =
     ([Assertion True ''has single payload''], Inl TypeError)"
proof -
  have a: "''hasOwnProperty'' \<notin> fst ` set sample_obj \<and>
      payloadSize_number sample_ecma sample_obj = Number 1024 \<and>
      map_of sample_obj ''payloadCount'' = Some (JNum 1)"
    by (simp add: sample_obj_def payloadSize_number_def)
  have b: "''hasOwnProperty'' \<notin> fst ` set [(''payloadCount'', JStr ''1''), (''payloadSize'', JStr ''1024'')] \<and>
      payloadSize_number sample_ecma [(''payloadCount'', JStr ''1''), (''payloadSize'', JStr ''1024'')] =
        Number 1024"
    by (simp add: payloadSize_number_def sample_ecma_def is_digits_def digits_value_def)
  have c: "''hasOwnProperty'' \<in> fst ` set shadowing_obj"
    by (simp add: shadowing_obj_def)
  have d: "''hasOwnProperty'' \<notin> fst ` set unconvertible_obj \<and>
      payloadSize_number sample_ecma unconvertible_obj = Throws \<and>
      map_of unconvertible_obj ''payloadCount'' = Some (JNum 1)"
    by (simp add: unconvertible_obj_def payloadSize_number_def sample_ecma_def)
  show ?thesis
    using a b c d
      checkGrain_assertions [where Grain = sample_Grain and obj = sample_obj
        and E = sample_ecma and t = "[]", OF refl]
      checkGrain_assertions [where Grain = sample_Grain
        and obj = "[(''payloadCount'', JStr ''1''), (''payloadSize'', JStr ''1024'')]"
        and E = sample_ecma and t = "[]", OF refl]
      checkGrain_assertions [where Grain = sample_Grain and obj = shadowing_obj
        and E = sample_ecma and t = "[]", OF refl]
      checkGrain_assertions [where Grain = sample_Grain and obj = unconvertible_obj
        and E = sample_ecma and t = "[]", OF refl]
    by (simp add: sample_Grain_def sample_obj_def field_def)
qed

text \<open>
  C4 as stated fails: the sample message with one more property, named
  \<^verbatim>\<open>hasOwnProperty\<close>, makes \<^verbatim>\<open>checkGrain\<close> throw at line 214, before any assertion is
  reported, and no grain is returned.
\<close>

theorem checkGrain_shadowed_throws:
  "checkGrain sample_ecma sample_Grain [] shadowing_obj = ([], Inl TypeError)"
  by (simp add: checkGrain_def own_def hasOwnProperty_def shadowing_obj_def)

text \<open>
  C10. The validator of the older module and the one of \<^verbatim>\<open>testUtil.js\<close> report the same
  assertions with the same outcomes and return the same grain, for the same constructor.
\<close>

theorem checkGrain_old_equivalent:
  "checkGrain_old E Grain t obj = checkGrain E Grain t obj"
  by (simp add: checkGrain_old_def checkGrain_def)

section \<open>The file system\<close>

lemma lookup_append:
  "lookup fs (p @ q) = (case lookup fs p of None \<Rightarrow> None | Some n \<Rightarrow> lookup n q)"
proof (induction p arbitrary: fs)
  case Nil
  show ?case by simp
next
  case (Cons x xs)
  show ?case
    by (cases fs) (simp_all add: Cons.IH split: option.split)
qed

lemma lookup_modify_dir:
  "lookup fs p = Some (Dir es) \<Longrightarrow> lookup (modify_dir fs p f) (p @ q) = lookup (Dir (f es)) q"
proof (induction p arbitrary: fs)
  case Nil
  then show ?case by simp
next
  case (Cons x xs)
  then show ?case
    by (cases fs) (auto simp: AList.map_of_map_entry split: option.splits)
qed

lemma lookup_modify_dir_same:
  "lookup fs p = Some (Dir es) \<Longrightarrow> lookup (modify_dir fs p f) p = Some (Dir (f es))"
  using lookup_modify_dir [of fs p es f "[]"] by simp

lemma map_entry_id: "map_of es x = Some m \<Longrightarrow> g m = m \<Longrightarrow> AList.map_entry x g es = es"
  by (induction es) (auto split: if_splits)

lemma modify_dir_id:
  "lookup fs p = Some (Dir es) \<Longrightarrow> f es = es \<Longrightarrow> modify_dir fs p f = fs"
proof (induction p arbitrary: fs)
  case Nil
  then show ?case by simp
next
  case (Cons x xs)
  then show ?case
    by (cases fs) (auto simp: map_entry_id split: option.splits)
qed

lemma map_entry_twice:
  "AList.map_entry k g (AList.map_entry k f es) = AList.map_entry k (\<lambda>m. g (f m)) es"
  by (induction es) auto

lemma modify_dir_twice:
  "modify_dir (modify_dir fs p f) p g = modify_dir fs p (\<lambda>es. g (f es))"
proof (induction p arbitrary: fs)
  case Nil
  show ?case by (cases fs) simp_all
next
  case (Cons x xs)
  show ?case
    by (cases fs) (simp_all add: map_entry_twice Cons.IH)
qed

lemma delete_map_entry: "AList.delete k (AList.map_entry k h es) = AList.delete k es"
  by (induction es) auto

lemma delete_after_modify:
  "modify_dir (modify_dir fs (q @ [x]) f) q (AList.delete x) = modify_dir fs q (AList.delete x)"
proof (induction q arbitrary: fs)
  case Nil
  show ?case by (cases fs) (simp_all add: delete_map_entry)
next
  case (Cons y ys)
  show ?case
    by (cases fs) (simp_all add: map_entry_twice Cons.IH)
qed

lemma wf_lookup: "wf_node fs \<Longrightarrow> lookup fs p = Some n \<Longrightarrow> wf_node n"
proof (induction p arbitrary: fs)
  case Nil
  then show ?case by simp
next
  case (Cons x xs)
  show ?case
  proof (cases fs)
    case (File c)
    with Cons.prems show ?thesis by simp
  next
    case (Dir es)
    with Cons.prems obtain m where m: "map_of es x = Some m" "lookup m xs = Some n"
      by (auto split: option.splits)
    from m(1) have "m \<in> snd ` set es"
      by (metis map_of_SomeD snd_conv image_eqI)
    with Cons.prems(1) Dir have "wf_node m" by auto
    then show ?thesis using m(2) by (rule Cons.IH)
  qed
qed

lemma set_map_entry:
  "(k, v) \<in> set (AList.map_entry x g es) \<Longrightarrow> (k, v) \<in> set es \<or> (\<exists>m. (k, m) \<in> set es \<and> v = g m)"
  by (induction es) (auto split: if_splits)

lemma wf_modify_dir:
  assumes "wf_node fs"
    and "\<And>es. wf_node (Dir es) \<Longrightarrow> wf_node (Dir (f es))"
  shows "wf_node (modify_dir fs p f)"
  using assms(1)
proof (induction p arbitrary: fs)
  case Nil
  then show ?case by (cases fs) (simp_all add: assms(2) del: wf_node.simps)
next
  case (Cons x xs)
  show ?case
  proof (cases fs)
    case (File c)
    then show ?thesis by simp
  next
    case (Dir es)
    have "wf_node v" if "(k, v) \<in> set (AList.map_entry x (\<lambda>m. modify_dir m xs f) es)" for k v
    proof -
      from set_map_entry [OF that] consider "(k, v) \<in> set es"
        | m where "(k, m) \<in> set es" "v = modify_dir m xs f" by blast
      then show ?thesis
      proof cases
        case 1
        with Cons.prems Dir show ?thesis by force
      next
        case 2
        with Cons.prems Dir have "wf_node m" by force
        with 2 show ?thesis by (simp add: Cons.IH)
      qed
    qed
    with Cons.prems Dir show ?thesis
      by (auto simp: AList.distinct_map_entry)
  qed
qed

lemma wf_delete:
  assumes "wf_node (Dir es)"
  shows "wf_node (Dir (AList.delete k es))"
proof -
  have "set (AList.delete k es) \<subseteq> set es"
    by (auto simp: AList.delete_eq)
  moreover have "distinct (map fst (AList.delete k es))"
    using assms by (simp add: AList.distinct_delete)
  ultimately show ?thesis
    using assms by auto
qed

lemma wf_remove_entry: "wf_node fs \<Longrightarrow> wf_node (remove_entry fs p)"
  unfolding remove_entry_def by (rule wf_modify_dir) (simp_all only: wf_delete)


lemma fold_max_ge: "x \<in> set xs \<Longrightarrow> x \<le> fold max xs (a::nat)"
proof (induction xs arbitrary: a)
  case Nil
  then show ?case by simp
next
  case (Cons y ys)
  have mono: "b \<le> fold max ys b" for b :: nat
    by (induction ys arbitrary: b) (auto intro: order_trans [OF max.cobounded2])
  show ?case
  proof (cases "x = y")
    case True
    then show ?thesis
      using mono [of "max y a"] by simp
  next
    case False
    with Cons show ?thesis by simp
  qed
qed

lemma levels_entry:
  assumes "m \<in> snd ` set es" and "levels (Dir es) \<le> Suc b"
  shows "levels m \<le> b"
proof -
  from assms(1) have "levels m \<in> set (map (\<lambda>e. levels (snd e)) es)"
    by auto
  then have "levels m \<le> fold max (map (\<lambda>e. levels (snd e)) es) 0"
    by (rule fold_max_ge)
  with assms(2) show ?thesis by simp
qed

lemma remove_entry_child: "remove_entry fs (dir @ [k]) = modify_dir fs dir (AList.delete k)"
  by (simp add: remove_entry_def)

lemma fold_rimraf_entry:
  assumes rec: "\<And>fs1 k ds. wf_node fs1 \<Longrightarrow> lookup fs1 (dir @ [k]) = Some (Dir ds) \<Longrightarrow>
      levels (Dir ds) \<le> b \<Longrightarrow> rec fs1 (dir @ [k]) = Some (Inr (remove_entry fs1 (dir @ [k])))"
  shows "wf_node fs1 \<Longrightarrow> lookup fs1 dir = Some (Dir todo) \<Longrightarrow>
      \<forall>m \<in> snd ` set todo. levels m \<le> b \<Longrightarrow>
      fold (rimraf_entry rec dir) (map fst todo) (Some (Inr fs1)) =
        Some (Inr (modify_dir fs1 dir (\<lambda>es. [])))"
proof (induction todo arbitrary: fs1)
  case Nil
  then show ?case by (simp add: modify_dir_id)
next
  case (Cons e rest)
  obtain k m where e: "e = (k, m)" by (cases e)
  let ?fs2 = "modify_dir fs1 dir (AList.delete k)"
  have child: "lookup fs1 (dir @ [k]) = Some m"
    using Cons.prems(2) e by (simp add: lookup_append)
  have one: "rimraf_entry rec dir k (Some (Inr fs1)) = Some (Inr ?fs2)"
  proof (cases m)
    case (File c)
    with child show ?thesis
      by (simp add: rimraf_entry_def lstat_def isDirectory_def unlink_def)
  next
    case (Dir ds)
    have "levels (Dir ds) \<le> b"
      using Cons.prems(3) e Dir by simp
    with child Dir Cons.prems(1) show ?thesis
      by (simp add: rimraf_entry_def lstat_def isDirectory_def rec remove_entry_child)
  qed
  have "wf_node (Dir (e # rest))"
    using Cons.prems(1,2) by (rule wf_lookup)
  then have fresh: "k \<notin> fst ` set rest"
    using e by auto
  have wf2: "wf_node ?fs2"
    using Cons.prems(1) by (rule wf_modify_dir) (rule wf_delete)
  have dir2: "lookup ?fs2 dir = Some (Dir rest)"
    using lookup_modify_dir_same [OF Cons.prems(2), of "AList.delete k"] e fresh by simp
  have lv2: "\<forall>m \<in> snd ` set rest. levels m \<le> b"
    using Cons.prems(3) by simp
  have "fold (rimraf_entry rec dir) (map fst (e # rest)) (Some (Inr fs1)) =
      fold (rimraf_entry rec dir) (map fst rest) (Some (Inr ?fs2))"
    using e one by simp
  also have "\<dots> = Some (Inr (modify_dir ?fs2 dir (\<lambda>es. [])))"
    using wf2 dir2 lv2 by (rule Cons.IH)
  finally show ?case
    by (simp add: modify_dir_twice)
qed

lemma rimraf_body_correct:
  assumes rec: "\<And>fs1 k ds. wf_node fs1 \<Longrightarrow> lookup fs1 (dir @ [k]) = Some (Dir ds) \<Longrightarrow>
      levels (Dir ds) \<le> b \<Longrightarrow> rec fs1 (dir @ [k]) = Some (Inr (remove_entry fs1 (dir @ [k])))"
    and wf: "wf_node fs" and ne: "dir \<noteq> []" and dir: "lookup fs dir = Some (Dir es)"
    and lv: "levels (Dir es) \<le> Suc b"
  shows "rimraf_body rec fs dir = Some (Inr (remove_entry fs dir))"
proof -
  let ?fs1 = "modify_dir fs dir (\<lambda>es. [])"
  have "\<forall>m \<in> snd ` set es. levels m \<le> b"
    using lv levels_entry by blast
  with rec wf dir have fold:
    "fold (rimraf_entry rec dir) (map fst es) (Some (Inr fs)) = Some (Inr ?fs1)"
    by (rule fold_rimraf_entry)
  have emptied: "lookup ?fs1 dir = Some (Dir [])"
    using dir by (simp add: lookup_modify_dir_same)
  have "modify_dir ?fs1 (butlast dir) (AList.delete (last dir)) = remove_entry fs dir"
    using delete_after_modify [of fs "butlast dir" "last dir"] ne
    by (simp add: remove_entry_def)
  with emptied ne have "rmdir ?fs1 dir = Inr (remove_entry fs dir)"
    by (simp add: rmdir_def)
  with fold dir show ?thesis
    by (simp add: rimraf_body_def exists_def readdir_def)
qed

lemma rimraf_correct:
  "wf_node fs \<Longrightarrow> dir \<noteq> [] \<Longrightarrow> lookup fs dir = Some (Dir es) \<Longrightarrow> levels (Dir es) \<le> Suc n \<Longrightarrow>
     rimraf n fs dir = Some (Inr (remove_entry fs dir))"
proof (induction n arbitrary: fs dir es)
  case 0
  have "rimraf_body (\<lambda>fs1 p. None) fs dir = Some (Inr (remove_entry fs dir))"
    using _ "0.prems" by (rule rimraf_body_correct) simp
  then show ?case by simp
next
  case (Suc n)
  have "rimraf_body (rimraf n) fs dir = Some (Inr (remove_entry fs dir))"
    using _ Suc.prems by (rule rimraf_body_correct) (rule Suc.IH, simp_all)
  then show ?case by simp
qed

lemma lookup_parent:
  "lookup fs (q @ [x]) = Some n \<Longrightarrow> \<exists>es. lookup fs q = Some (Dir es) \<and> map_of es x = Some n"
  by (cases "lookup fs q"; cases "the (lookup fs q)")
    (auto simp: lookup_append split: option.splits)

lemma removed_absent:
  assumes "lookup fs p = Some n" and "p \<noteq> []"
  shows "lookup (remove_entry fs p) p = None"
proof -
  from assms(2) have p: "p = butlast p @ [last p]" by simp
  with assms(1) obtain es where es: "lookup fs (butlast p) = Some (Dir es)"
    using lookup_parent [of fs "butlast p" "last p" n] by auto
  have "lookup (remove_entry fs p) (butlast p @ [last p]) =
      lookup (Dir (AList.delete (last p) es)) [last p]"
    unfolding remove_entry_def using es by (rule lookup_modify_dir)
  with p show ?thesis
    by (simp add: AList.delete_conv')
qed

lemma rimraf_body_success:
  assumes "exists fs dir" and "rimraf_body rec fs dir = Some (Inr fs')"
  shows "\<not> exists fs' dir"
proof -
  from assms obtain fs1 where r: "rmdir fs1 dir = Inr fs'"
    by (auto simp: rimraf_body_def split: sum.splits option.splits)
  then obtain n where "lookup fs1 dir = Some n" "dir \<noteq> []" "fs' = remove_entry fs1 dir"
    by (auto simp: rmdir_def remove_entry_def split: option.splits node.splits if_splits)
  then show ?thesis
    by (simp add: exists_def removed_absent)
qed

section \<open>Removing a directory tree\<close>

text \<open>
  C6. On a path that does not exist, \<^verbatim>\<open>rimraf\<close> returns at once, without an error and
  with the file system as it was, whatever the bound on the recursion.
\<close>

theorem rimraf_absent: "\<not> exists fs dir \<Longrightarrow> rimraf n fs dir = Some (Inr fs)"
  by (cases n) (simp_all add: rimraf_body_def)

text \<open>C6 on the sample tree, for a missing entry and for a path below a missing entry.\<close>

theorem rimraf_absent_witness:
  "\<not> exists sample_fs [''test'', ''nope''] \<and>
   rimraf 0 sample_fs [''test'', ''nope''] = Some (Inr sample_fs) \<and>
   rimraf 3 sample_fs [''test'', ''tmp'', ''sub'', ''gone'', ''x''] = Some (Inr sample_fs)"
proof -
  have a: "\<not> exists sample_fs [''test'', ''nope'']"
    by (simp add: exists_def sample_fs_def)
  have b: "\<not> exists sample_fs [''test'', ''tmp'', ''sub'', ''gone'', ''x'']"
    by (simp add: exists_def sample_fs_def)
  show ?thesis
    using a rimraf_absent [OF a, of 0] rimraf_absent [OF b, of 3] by simp
qed

text \<open>
  C8. On an existing directory other than the root, in a tree whose names are unique within
  each directory, \<^verbatim>\<open>rimraf\<close> returns once the recursion may nest as deep as the directory
  has levels, without an error, and the result is the tree without that directory. Whenever
  \<^verbatim>\<open>rimraf\<close> succeeds on a path that existed, the path no longer exists. On a directory
  it handles the entries of the listing first and removes the directory after the last of
  them; an entry that is a directory is handled by the recursive call, an entry that is a
  file by \<^verbatim>\<open>unlink\<close>.
\<close>

theorem rimraf_removes_tree:
  "(wf_node fs \<and> dir \<noteq> [] \<and> lookup fs dir = Some (Dir es) \<and> levels (Dir es) \<le> Suc n \<longrightarrow>
      rimraf n fs dir = Some (Inr (remove_entry fs dir)) \<and>
      \<not> exists (remove_entry fs dir) dir) \<and>
   (exists fs dir \<and> rimraf n fs dir = Some (Inr fs') \<longrightarrow> \<not> exists fs' dir) \<and>
   (lookup fs dir = Some (Dir es) \<longrightarrow>
      rimraf (Suc n) fs dir =
        (case fold (rimraf_entry (rimraf n) dir) (map fst es) (Some (Inr fs)) of
           Some (Inr fs1) \<Rightarrow> Some (rmdir fs1 dir)
         | other \<Rightarrow> other)) \<and>
   (lookup fs (dir @ [name]) = Some (Dir ds) \<longrightarrow>
      rimraf_entry rec dir name (Some (Inr fs)) = rec fs (dir @ [name])) \<and>
   (lookup fs (dir @ [name]) = Some (File c) \<longrightarrow>
      rimraf_entry rec dir name (Some (Inr fs)) = Some (unlink fs (dir @ [name])))"
proof -
  have total: "rimraf n fs dir = Some (Inr (remove_entry fs dir)) \<and>
      \<not> exists (remove_entry fs dir) dir"
    if "wf_node fs" "dir \<noteq> []" "lookup fs dir = Some (Dir es)" "levels (Dir es) \<le> Suc n"
    using that by (simp add: rimraf_correct removed_absent exists_def)
  have success: "\<not> exists fs' dir" if "exists fs dir" "rimraf n fs dir = Some (Inr fs')"
    using that by (cases n) (auto dest: rimraf_body_success)
  have body: "rimraf (Suc n) fs dir =
        (case fold (rimraf_entry (rimraf n) dir) (map fst es) (Some (Inr fs)) of
           Some (Inr fs1) \<Rightarrow> Some (rmdir fs1 dir)
         | other \<Rightarrow> other)"
    if "lookup fs dir = Some (Dir es)"
    using that by (simp add: rimraf_body_def exists_def readdir_def)
  have entry: "(lookup fs (dir @ [name]) = Some (Dir ds) \<longrightarrow>
      rimraf_entry rec dir name (Some (Inr fs)) = rec fs (dir @ [name])) \<and>
   (lookup fs (dir @ [name]) = Some (File c) \<longrightarrow>
      rimraf_entry rec dir name (Some (Inr fs)) = Some (unlink fs (dir @ [name])))"
    by (simp add: rimraf_entry_def lstat_def isDirectory_def)
  show ?thesis
    using total success body entry by blast
qed

text \<open>C8 on the sample tree: the staging directory, three levels deep, is removed.\<close>

theorem rimraf_removes_tree_witness:
  "rimraf 2 sample_fs [''test'', ''tmp''] =
     Some (Inr (Dir [(''test'', Dir [(''testUtil.js'', File ''js'')]),
                     (''README.md'', File ''readme'')])) \<and>
   \<not> exists (Dir [(''test'', Dir [(''testUtil.js'', File ''js'')]),
                  (''README.md'', File ''readme'')]) [''test'', ''tmp'']"
proof -
  have a: "wf_node sample_fs"
    by (simp add: sample_fs_def)
  have b: "lookup sample_fs [''test'', ''tmp''] =
      Some (Dir [(''a.wav'', File ''RIFF''),
                 (''sub'', Dir [(''b.txt'', File ''b''), (''deep'', Dir [])]),
                 (''c.txt'', File ''c'')])"
    by (simp add: sample_fs_def)
  have c: "levels (Dir [(''a.wav'', File ''RIFF''),
                 (''sub'', Dir [(''b.txt'', File ''b''), (''deep'', Dir [])]),
                 (''c.txt'', File ''c'')]) \<le> Suc 2"
    by simp
  have d: "remove_entry sample_fs [''test'', ''tmp''] =
      Dir [(''test'', Dir [(''testUtil.js'', File ''js'')]), (''README.md'', File ''readme'')]"
    by (simp add: remove_entry_def sample_fs_def)
  show ?thesis
    using a b c d
      rimraf_removes_tree [where fs = sample_fs and dir = "[''test'', ''tmp'']" and n = 2
        and es = "[(''a.wav'', File ''RIFF''),
                   (''sub'', Dir [(''b.txt'', File ''b''), (''deep'', Dir [])]),
                   (''c.txt'', File ''c'')]"]
    by simp
qed

section \<open>Downloading into the staging directory\<close>

text \<open>
  C7. When the staging directory is absent, its parent is a directory and the call is not
  refused, \<^verbatim>\<open>mkdir\<close> creates it. After a successful \<^verbatim>\<open>mkdir\<close> the download proceeds in
  the new tree; after a failure with code EEXIST, which is the failure on an existing path,
  it proceeds in the tree as it was; after a failure with any other code it fails with that
  error and leaves the tree as it was. Every code is the failure of some call.
\<close>

theorem download_mkdir:
  "(lookup fs dirname = Some (Dir es) \<and> lookup fs (dirname @ [''tmp'']) = None \<longrightarrow>
      mkdir None fs (dirname @ [''tmp'']) =
        Inr (modify_dir fs dirname (\<lambda>es. es @ [(''tmp'', Dir [])])) \<and>
      lookup (modify_dir fs dirname (\<lambda>es. es @ [(''tmp'', Dir [])])) (dirname @ [''tmp'']) =
        Some (Dir [])) \<and>
   (mkdir refused fs (dirname @ [''tmp'']) = Inr fs1 \<longrightarrow>
      download getUri refused dirname fs uri fname = download_fetch getUri dirname fs1 uri fname) \<and>
   (mkdir refused fs (dirname @ [''tmp'']) = Inl EEXIST \<longrightarrow>
      download getUri refused dirname fs uri fname = download_fetch getUri dirname fs uri fname) \<and>
   (mkdir refused fs (dirname @ [''tmp'']) = Inl e \<and> e \<noteq> EEXIST \<longrightarrow>
      download getUri refused dirname fs uri fname = (fs, Inl e)) \<and>
   (exists fs (dirname @ [''tmp'']) \<longrightarrow> mkdir None fs (dirname @ [''tmp'']) = Inl EEXIST) \<and>
   mkdir (Some e) fs (dirname @ [''tmp'']) = Inl e"
proof -
  have created: "mkdir None fs (dirname @ [''tmp'']) =
        Inr (modify_dir fs dirname (\<lambda>es. es @ [(''tmp'', Dir [])])) \<and>
      lookup (modify_dir fs dirname (\<lambda>es. es @ [(''tmp'', Dir [])])) (dirname @ [''tmp'']) =
        Some (Dir [])"
    if d: "lookup fs dirname = Some (Dir es)" and t: "lookup fs (dirname @ [''tmp'']) = None"
  proof -
    from d t have "map_of es ''tmp'' = None"
      by (simp add: lookup_append split: option.splits)
    then have "lookup (Dir (es @ [(''tmp'', Dir [])])) [''tmp''] = Some (Dir [])"
      by (simp add: map_add_def)
    then show ?thesis
      using d t lookup_modify_dir [OF d, of "\<lambda>es. es @ [(''tmp'', Dir [])]" "[''tmp'']"]
      by (simp add: mkdir_def)
  qed
  have rest: "(mkdir refused fs (dirname @ [''tmp'']) = Inr fs1 \<longrightarrow>
      download getUri refused dirname fs uri fname = download_fetch getUri dirname fs1 uri fname) \<and>
   (mkdir refused fs (dirname @ [''tmp'']) = Inl EEXIST \<longrightarrow>
      download getUri refused dirname fs uri fname = download_fetch getUri dirname fs uri fname) \<and>
   (mkdir refused fs (dirname @ [''tmp'']) = Inl e \<and> e \<noteq> EEXIST \<longrightarrow>
      download getUri refused dirname fs uri fname = (fs, Inl e))"
    by (simp add: download_def)
  have present: "mkdir None fs (dirname @ [''tmp'']) = Inl EEXIST"
    if "exists fs (dirname @ [''tmp''])"
    using that by (simp add: mkdir_def exists_def)
  have "mkdir (Some e) fs (dirname @ [''tmp'']) = Inl e"
    by (simp add: mkdir_def)
  with created rest present show ?thesis
    by blast
qed

text \<open>
  C7 on the sample tree: the directory is created, it exists already, its parent is missing,
  its parent is a file, the call is refused for the permissions, and the directory is
  created but the fetch fails.
\<close>

theorem download_mkdir_witness:
  "download sample_getUri None [] sample_fs ''http://localhost/x.wav'' ''x.wav'' =
     (Dir [(''test'',
            Dir [(''tmp'', Dir [(''a.wav'', File ''RIFF''),
                                (''sub'', Dir [(''b.txt'', File ''b''), (''deep'', Dir [])]),
                                (''c.txt'', File ''c'')]),
                 (''testUtil.js'', File ''js'')]),
           (''README.md'', File ''readme''),
           (''tmp'', Dir [(''x.wav'', File ''RIFF'')])],
      Inr ()) \<and>
   download sample_getUri None [''test''] sample_fs ''http://localhost/x.wav'' ''x.wav'' =
     (Dir [(''test'',
            Dir [(''tmp'', Dir [(''a.wav'', File ''RIFF''),
                                (''sub'', Dir [(''b.txt'', File ''b''), (''deep'', Dir [])]),
                                (''c.txt'', File ''c''),
                                (''x.wav'', File ''RIFF'')]),
                 (''testUtil.js'', File ''js'')]),
           (''README.md'', File ''readme'')],
      Inr ()) \<and>
   download sample_getUri None [''nodir''] sample_fs ''http://localhost/x.wav'' ''x.wav'' =
     (sample_fs, Inl ENOENT) \<and>
   download sample_getUri None [''README.md''] sample_fs ''http://localhost/x.wav'' ''x.wav'' =
     (sample_fs, Inl ENOTDIR) \<and>
   download sample_getUri (Some EACCES) [] sample_fs ''http://localhost/x.wav'' ''x.wav'' =
     (sample_fs, Inl EACCES) \<and>
   download sample_getUri None [] sample_fs ''http://localhost/missing'' ''x.wav'' =
     (Dir [(''test'',
            Dir [(''tmp'', Dir [(''a.wav'', File ''RIFF''),
                                (''sub'', Dir [(''b.txt'', File ''b''), (''deep'', Dir [])]),
                                (''c.txt'', File ''c'')]),
                 (''testUtil.js'', File ''js'')]),
           (''README.md'', File ''readme''),
           (''tmp'', Dir [])],
      Inl (Other ''ENOTFOUND''))"
proof -
  have a: "mkdir None sample_fs ([] @ [''tmp'']) =
      Inr (Dir [(''test'',
                Dir [(''tmp'', Dir [(''a.wav'', File ''RIFF''),
                                    (''sub'', Dir [(''b.txt'', File ''b''), (''deep'', Dir [])]),
                                    (''c.txt'', File ''c'')]),
                     (''testUtil.js'', File ''js'')]),
               (''README.md'', File ''readme''),
               (''tmp'', Dir [])])"
    by (simp add: mkdir_def sample_fs_def)
  have b: "mkdir None sample_fs ([''test''] @ [''tmp'']) = Inl EEXIST"
    by (simp add: mkdir_def sample_fs_def)
  have c: "mkdir None sample_fs ([''nodir''] @ [''tmp'']) = Inl ENOENT \<and> ENOENT \<noteq> EEXIST"
    by (simp add: mkdir_def sample_fs_def)
  have d: "mkdir None sample_fs ([''README.md''] @ [''tmp'']) = Inl ENOTDIR \<and> ENOTDIR \<noteq> EEXIST"
    by (simp add: mkdir_def sample_fs_def)
  have e: "mkdir (Some EACCES) sample_fs ([] @ [''tmp'']) = Inl EACCES \<and> EACCES \<noteq> EEXIST"
    by (simp add: mkdir_def)
  show ?thesis
    using a b c d e
      download_mkdir [where fs = sample_fs and dirname = "[]" and getUri = sample_getUri
        and refused = None and uri = "''http://localhost/x.wav''" and fname = "''x.wav''"]
      download_mkdir [where fs = sample_fs and dirname = "[''test'']" and getUri = sample_getUri
        and refused = None and uri = "''http://localhost/x.wav''" and fname = "''x.wav''"]
      download_mkdir [where fs = sample_fs and dirname = "[''nodir'']" and getUri = sample_getUri
        and refused = None and uri = "''http://localhost/x.wav''" and fname = "''x.wav''"
        and e = ENOENT]
      download_mkdir [where fs = sample_fs and dirname = "[''README.md'']"
        and getUri = sample_getUri and refused = None
        and uri = "''http://localhost/x.wav''" and fname = "''x.wav''" and e = ENOTDIR]
      download_mkdir [where fs = sample_fs and dirname = "[]" and getUri = sample_getUri
        and refused = "Some EACCES" and uri = "''http://localhost/x.wav''"
        and fname = "''x.wav''" and e = EACCES]
      download_mkdir [where fs = sample_fs and dirname = "[]" and getUri = sample_getUri
        and refused = None and uri = "''http://localhost/missing''" and fname = "''x.wav''"]
    by (simp add: download_fetch_def sample_getUri_def write_file_def sample_fs_def
        isDirectory_def)
qed

end
